theory Spec2Isabelle
  imports Main
begin

section \<open>The tillicum packaging manifest\<close>

text \<open>
  The repository consists of one Python file, \<^verbatim>\<open>setup.py\<close>:
  \<^verbatim>\<open>
  from setuptools import setup, find_packages

  setup(name="tillicum",
        version="0.8.1",
        packages=find_packages(),
        test_suite="nose.collector",
        tests_require=['nose',
                       'mock',
                       'coverage'],
        install_requires=['ostrich'])
  \<close>
  The script has one effect: it calls \<^verbatim>\<open>setup\<close> with six keyword arguments. Five of
  them are literals; \<^verbatim>\<open>packages\<close> is computed from the directory the script runs in.
\<close>

subsection \<open>The directory the script runs in\<close>

text \<open>
  A directory is a list of entries, each a file or a sub-directory with its own entries,
  in listing order.
\<close>

datatype entry = File string | Dir string "entry list"

text \<open>
  The source tree of the repository: the manifest and nothing else.
\<close>

definition repository :: "entry list" where
  "repository = [File ''setup.py'']"

text \<open>
  The paths of all files below a directory, relative to it, \<^verbatim>\<open>/\<close>-separated.
\<close>

fun files_of :: "string \<Rightarrow> entry list \<Rightarrow> string list" where
  "files_of prefix [] = []"
| "files_of prefix (File n # es) = (prefix @ n) # files_of prefix es"
| "files_of prefix (Dir n sub # es) = files_of (prefix @ n @ ''/'') sub @ files_of prefix es"

subsection \<open>\<^verbatim>\<open>find_packages\<close>\<close>

text \<open>
  \<^verbatim>\<open>find_packages\<close> is imported from setuptools; it is not code of the repository. It
  is embedded here by what setuptools documents of it: starting at \<^verbatim>\<open>where\<close> (default
  \<^verbatim>\<open>'.'\<close>), a directory is a package when its name has no dot and it holds a file
  \<^verbatim>\<open>__init__.py\<close>; only packages are searched for further packages; a package is named
  by its dotted path; names matching an exclusion pattern are dropped from the result.
  The exclusion patterns setuptools adds by itself differ between its versions, so the
  exclusion test is a parameter. The order of the result also differs between versions
  and nothing below depends on it.
\<close>

definition looks_like_package :: "entry list \<Rightarrow> bool" where
  "looks_like_package es = List.member es (File ''__init__.py'')"

fun is_package_dir :: "entry \<Rightarrow> bool" where
  "is_package_dir (File n) = False"
| "is_package_dir (Dir n sub) = (\<not> List.member n CHR ''.'' \<and> looks_like_package sub)"

fun walk_packages :: "string \<Rightarrow> entry list \<Rightarrow> string list" where
  "walk_packages prefix [] = []"
| "walk_packages prefix (File n # es) = walk_packages prefix es"
| "walk_packages prefix (Dir n sub # es) =
     (if is_package_dir (Dir n sub)
      then (prefix @ n) # walk_packages (prefix @ n @ ''.'') sub @ walk_packages prefix es
      else walk_packages prefix es)"

definition find_packages :: "(string \<Rightarrow> bool) \<Rightarrow> entry list \<Rightarrow> string list" where
  "find_packages exclude root = filter (\<lambda>p. \<not> exclude p) (walk_packages [] root)"

subsection \<open>The call to \<^verbatim>\<open>setup\<close>\<close>

text \<open>
  The keyword arguments of the call, as a record. \<^verbatim>\<open>setup_py exclude cwd\<close> is the
  call the script makes when it runs in the directory \<^verbatim>\<open>cwd\<close>.
\<close>

record distribution =
  name :: string
  version :: string
  packages :: "string list"
  test_suite :: string
  tests_require :: "string list"
  install_requires :: "string list"

definition setup_py :: "(string \<Rightarrow> bool) \<Rightarrow> entry list \<Rightarrow> distribution" where
  "setup_py exclude cwd =
     \<lparr> name = ''tillicum'',
       version = ''0.8.1'',
       packages = find_packages exclude cwd,
       test_suite = ''nose.collector'',
       tests_require = [''nose'', ''mock'', ''coverage''],
       install_requires = [''ostrich''] \<rparr>"

text \<open>
  What setuptools does with the two requirement lists (again setuptools' behaviour, not
  code of the repository): installing the distribution resolves \<^verbatim>\<open>install_requires\<close>;
  the \<^verbatim>\<open>test\<close> command fetches \<^verbatim>\<open>install_requires\<close> and then \<^verbatim>\<open>tests_require\<close>.
\<close>

datatype command = Install | Test

fun fetched_requirements :: "command \<Rightarrow> distribution \<Rightarrow> string list" where
  "fetched_requirements Install d = install_requires d"
| "fetched_requirements Test d = install_requires d @ tests_require d"

section \<open>Properties\<close>

subsection \<open>The directory walk\<close>

lemma walk_packages_empty:
  "\<not> list_ex is_package_dir es \<Longrightarrow> walk_packages prefix es = []"
proof (induction es)
  case Nil
  then show ?case by simp
next
  case (Cons e es)
  then show ?case by (cases e) simp_all
qed

lemma find_packages_empty:
  "\<not> list_ex is_package_dir es \<Longrightarrow> find_packages exclude es = []"
  by (simp add: find_packages_def walk_packages_empty)

text \<open>
  The walk does find packages where there are some: a package directory that no pattern
  excludes is in the result, and sub-packages get dotted names.
\<close>

lemma walk_packages_nonempty:
  "list_ex is_package_dir es \<Longrightarrow> walk_packages prefix es \<noteq> []"
proof (induction es)
  case Nil
  then show ?case by simp
next
  case (Cons e es)
  show ?case
  proof (cases e)
    case (File n)
    with Cons show ?thesis by simp
  next
    case (Dir n sub)
    with Cons show ?thesis by (cases "is_package_dir (Dir n sub)") auto
  qed
qed

lemma find_packages_layout:
  "find_packages (\<lambda>p. p = ''ez_setup'')
     [File ''setup.py'',
      Dir ''docs'' [File ''index.rst''],
      Dir ''ez_setup'' [File ''__init__.py''],
      Dir ''tillicum'' [File ''__init__.py'', Dir ''tests'' [File ''__init__.py'']]]
   = [''tillicum'', ''tillicum.tests'']"
  by (simp add: find_packages_def looks_like_package_def)

subsection \<open>Name, version and runtime dependency\<close>

text \<open>
  C1. Wherever the script runs, the manifest declares the name \<^verbatim>\<open>tillicum\<close>, the version
  \<^verbatim>\<open>0.8.1\<close> and exactly one runtime dependency, \<^verbatim>\<open>ostrich\<close>: \<^verbatim>\<open>install_requires\<close>
  has precisely one entry. The repository holds no source file other than the manifest.
\<close>

theorem manifest_identity:
  "name (setup_py exclude cwd) = ''tillicum'' \<and>
   version (setup_py exclude cwd) = ''0.8.1'' \<and>
   install_requires (setup_py exclude cwd) = [''ostrich''] \<and>
   length (install_requires (setup_py exclude cwd)) = 1 \<and>
   files_of [] repository = [''setup.py'']"
  by (simp add: setup_py_def repository_def)

subsection \<open>Packages shipped\<close>

text \<open>
  C2. The packages of the distribution are what \<^verbatim>\<open>find_packages()\<close> finds in the
  directory at build time. When that directory has no package directory, as is the case
  for the repository, the distribution ships no importable package at all, whatever the
  exclusion patterns are.
\<close>

theorem no_packages_shipped:
  "packages (setup_py exclude cwd) = find_packages exclude cwd \<and>
   (\<not> list_ex is_package_dir cwd \<longrightarrow> packages (setup_py exclude cwd) = [])"
  by (simp add: setup_py_def find_packages_empty)

theorem no_packages_shipped_witness:
  "\<not> list_ex is_package_dir repository \<and>
   packages (setup_py (\<lambda>p. p = ''ez_setup'') repository) = []"
proof -
  have h: "\<not> list_ex is_package_dir repository"
    by (simp add: repository_def)
  with no_packages_shipped [of "\<lambda>p. p = ''ez_setup''" repository] show ?thesis
    by blast
qed

subsection \<open>Test-time and runtime requirements\<close>

text \<open>
  C10. The manifest keeps test-time requirements apart from runtime ones: \<^verbatim>\<open>nose\<close>,
  \<^verbatim>\<open>mock\<close> and \<^verbatim>\<open>coverage\<close> are the entries of \<^verbatim>\<open>tests_require\<close>, the test suite is
  \<^verbatim>\<open>nose.collector\<close>, none of the three is in \<^verbatim>\<open>install_requires\<close>, and installing the
  package fetches \<^verbatim>\<open>ostrich\<close> only, while running the tests fetches all four.
\<close>

theorem test_requirements_separate:
  "tests_require (setup_py exclude cwd) = [''nose'', ''mock'', ''coverage''] \<and>
   test_suite (setup_py exclude cwd) = ''nose.collector'' \<and>
   set (tests_require (setup_py exclude cwd)) \<inter> set (install_requires (setup_py exclude cwd)) = {} \<and>
   fetched_requirements Install (setup_py exclude cwd) = [''ostrich''] \<and>
   fetched_requirements Test (setup_py exclude cwd) = [''ostrich'', ''nose'', ''mock'', ''coverage'']"
  by (simp add: setup_py_def)

end
